theory Spec2Isabelle
  imports Main "HOL-Library.Word"
begin

section \<open>Go values: machine integers, errors, panics\<close>

text \<open>
  \<open>int64\<close> and \<open>uint64\<close> are both 64-bit words: \<open>+\<close> and \<open>-\<close> wrap around as in Go; a
  signed comparison is \<open><s\<close> / \<open>\<le>s\<close>, an unsigned one is \<open><\<close> / \<open>\<le>\<close>, and the conversions
  \<open>int64(x)\<close>, \<open>uint64(x)\<close> keep the bits. A \<open>[]byte\<close> is a list of bytes; \<open>nil\<close> and the empty
  slice are both \<open>[]\<close>. A \<open>time.Time\<close> is represented by its \<open>Unix()\<close> seconds.
\<close>

type_synonym int64 = "64 word"
type_synonym uint64 = "64 word"
type_synonym uint32 = "32 word"
type_synonym bytes = "8 word list"
type_synonym Time = int64

text \<open>
  Go \<open>error\<close> values, by the way they are built in \<open>baseapp/abci.go\<close>: an error registered
  with a codespace and a code, \<open>sdkerrors.Wrap\<close>/\<open>Wrapf\<close> around another error,
  \<open>fmt.Errorf\<close>, the error of a done \<open>context.Context\<close>, a runtime error, and an error
  that carries a gRPC status (the codes that \<open>gRPCErrorToSDKError\<close> tells apart, and one
  for all others). Format strings are kept together with their arguments instead of being
  expanded.
\<close>

datatype codes = NotFound | InvalidArgument | FailedPrecondition | Unauthenticated | OtherCode

datatype error =
    Registered string nat string
  | Wrapf error string "val list"
  | Errorf string "val list"
  | ContextError string
  | RuntimeError string
  | StatusError codes string
and val =
    VInt int
  | VStr string
  | VStrs "string list"
  | VErr error
  | Sprintf string "val list"

abbreviation Wrap :: "error \<Rightarrow> string \<Rightarrow> error" where
  "Wrap e msg \<equiv> Wrapf e msg []"

text \<open>
  A Go call either panics with a value or returns. A pair \<open>(res, err)\<close> with exactly one of
  the two set is \<open>error + 'a\<close>, \<open>Inl\<close> the error.
\<close>

datatype 'a outcome = Panic val | Return 'a

definition nilPointerDereference :: val where
  "nilPointerDereference = VErr (RuntimeError ''invalid memory address or nil pointer dereference'')"

definition indexOutOfRange :: val where
  "indexOutOfRange = VErr (RuntimeError ''index out of range'')"

subsection \<open>The error registry\<close>

text \<open>
  Modelled from the spec: the registry of \<open>types/errors\<close> is not part of the sources at hand.
  The spec says that protocol responses "carry a namespaced error code plus human-readable
  message"; the codespaces, codes and descriptions below are the ones under which the errors
  named in \<open>abci.go\<close> are registered. Code \<open>0\<close> is success, and an error that was never
  registered is reported under the internal code \<open>1\<close> of the undefined codespace.
\<close>

definition RootCodespace :: string where "RootCodespace = ''sdk''"
definition UndefinedCodespace :: string where "UndefinedCodespace = ''undefined''"

definition ErrTxDecode :: error where
  "ErrTxDecode = Registered RootCodespace 2 ''tx parse error''"
definition ErrUnauthorized :: error where
  "ErrUnauthorized = Registered RootCodespace 4 ''unauthorized''"
definition ErrUnknownRequest :: error where
  "ErrUnknownRequest = Registered RootCodespace 6 ''unknown request''"
definition ErrInvalidRequest :: error where
  "ErrInvalidRequest = Registered RootCodespace 18 ''invalid request''"
definition ErrInvalidHeight :: error where
  "ErrInvalidHeight = Registered RootCodespace 26 ''invalid height''"
definition ErrKeyNotFound :: error where
  "ErrKeyNotFound = Registered RootCodespace 30 ''key not found''"
definition ErrPanic :: error where
  "ErrPanic = Registered UndefinedCodespace 111222 ''panic''"

fun abciCode :: "error \<Rightarrow> nat" where
  "abciCode (Registered space c d) = c"
| "abciCode (Wrapf e msg args) = abciCode e"
| "abciCode (Errorf f args) = 1"
| "abciCode (ContextError s) = 1"
| "abciCode (RuntimeError s) = 1"
| "abciCode (StatusError c s) = 1"

fun abciCodespace :: "error \<Rightarrow> string" where
  "abciCodespace (Registered space c d) = space"
| "abciCodespace (Wrapf e msg args) = abciCodespace e"
| "abciCodespace (Errorf f args) = UndefinedCodespace"
| "abciCodespace (ContextError s) = UndefinedCodespace"
| "abciCodespace (RuntimeError s) = UndefinedCodespace"
| "abciCodespace (StatusError c s) = UndefinedCodespace"

section \<open>Data model\<close>

subsection \<open>Consensus parameters (\<open>tendermint/types/params\<close>)\<close>

record BlockParams =
  MaxBytes :: int64
  MaxGas :: int64

record EvidenceParams =
  MaxAgeNumBlocks :: int64
  MaxAgeDuration :: int64
  ev_MaxBytes :: int64

text \<open>A nil pointer field is \<open>None\<close>.\<close>

record ConsensusParams =
  Block :: "BlockParams option"
  Evidence :: "EvidenceParams option"

subsection \<open>Commit identifier\<close>

record CommitID =
  Version :: int64
  Hash :: bytes

text \<open>
  Modelled from the spec: \<open>CommitID.IsZero\<close> lives in the store package, which is not part of
  the sources at hand. A commit identifier is \<open>{version, hash}\<close>; it "is zero" when no state
  was ever committed: version \<open>0\<close> and no hash.
\<close>

definition IsZero :: "CommitID \<Rightarrow> bool" where
  "IsZero cid \<longleftrightarrow> Version cid = 0 \<and> Hash cid = []"

subsection \<open>ABCI requests and responses\<close>

text \<open>
  The messages of the consensus engine, with the fields that \<open>abci.go\<close> reads or writes.
  Evidence of misbehaviour and votes are only passed on, never inspected.
\<close>

typedecl Misbehavior
typedecl VoteInfo
typedecl DecCoins
typedecl SimulationResponse

type_synonym Event = "string \<times> (string \<times> string) list"

record ValidatorUpdate =
  PubKey :: bytes
  Power :: int64

record CommitInfo =
  Round :: uint32
  Votes :: "VoteInfo list"

record RequestInitChain =
  ic_Time :: Time
  ic_ChainId :: string
  ic_ConsensusParams :: "ConsensusParams option"
  ic_Validators :: "ValidatorUpdate list"
  ic_AppStateBytes :: bytes
  ic_InitialHeight :: int64

record ResponseInitChain =
  ric_ConsensusParams :: "ConsensusParams option"
  ric_Validators :: "ValidatorUpdate list"
  ric_AppHash :: bytes

record RequestFinalizeBlock =
  fb_Txs :: "bytes list"
  fb_DecidedLastCommit :: CommitInfo
  fb_Misbehavior :: "Misbehavior list"
  fb_Hash :: bytes
  fb_Height :: int64
  fb_Time :: Time
  fb_NextValidatorsHash :: bytes
  fb_ProposerAddress :: bytes

record ExecTxResult =
  tx_Code :: nat
  tx_Codespace :: string
  tx_Data :: bytes
  tx_GasWanted :: int64
  tx_GasUsed :: int64
  tx_Events :: "Event list"


record RequestQuery =
  q_Data :: bytes
  q_Path :: string
  q_Height :: int64
  q_Prove :: bool

record ResponseQuery =
  rq_Code :: nat
  rq_Codespace :: string
  rq_Value :: bytes
  rq_Height :: int64

text \<open>The zero value \<open>abci.ResponseQuery{}\<close> and \<open>abci.ResponseInitChain{}\<close>.\<close>

definition emptyResponseQuery :: ResponseQuery where
  "emptyResponseQuery = \<lparr>rq_Code = 0, rq_Codespace = [], rq_Value = [], rq_Height = 0\<rparr>"

definition emptyResponseInitChain :: ResponseInitChain where
  "emptyResponseInitChain =
     \<lparr>ric_ConsensusParams = None, ric_Validators = [], ric_AppHash = []\<rparr>"

text \<open>
  Modelled from the spec: \<open>sdkerrors.QueryResult\<close> and
  \<open>sdkerrors.ResponseExecTxResultWithEvents\<close> are not part of the sources at hand. They
  build the "structured error result": the codespace and code of the error, and for a
  transaction the gas wanted, the gas used and the events that are handed in.
\<close>

definition QueryResult :: "error \<Rightarrow> ResponseQuery" where
  "QueryResult err =
     \<lparr>rq_Code = abciCode err, rq_Codespace = abciCodespace err, rq_Value = [], rq_Height = 0\<rparr>"

definition ResponseExecTxResultWithEvents ::
  "error \<Rightarrow> uint64 \<Rightarrow> uint64 \<Rightarrow> Event list \<Rightarrow> ExecTxResult" where
  "ResponseExecTxResultWithEvents err gw gu events =
     \<lparr>tx_Code = abciCode err, tx_Codespace = abciCodespace err, tx_Data = [],
      tx_GasWanted = gw, tx_GasUsed = gu, tx_Events = events\<rparr>"

subsection \<open>Execution context and mode state\<close>

datatype GasMeter = NewInfiniteGasMeter | NewGasMeter uint64

datatype ExecMode =
    ExecModeCheck | ExecModeReCheck | ExecModeSimulate | ExecModePrepareProposal
  | ExecModeProcessProposal | ExecModeVoteExtension | ExecModeFinalize

record Header =
  h_ChainID :: string
  h_Height :: int64
  h_Time :: Time
  h_ProposerAddress :: bytes
  h_NextValidatorsHash :: bytes
  h_AppHash :: bytes

record HeaderInfo =
  hi_ChainID :: string
  hi_Height :: int64
  hi_Time :: Time
  hi_Hash :: bytes
  hi_AppHash :: bytes

record cometInfo =
  ci_Misbehavior :: "Misbehavior list"
  ci_ValidatorsHash :: bytes
  ci_ProposerAddress :: bytes
  ci_LastCommit :: CommitInfo

text \<open>
  Modelled from the spec: \<open>sdk.Context\<close> is not part of the sources at hand. It is the
  "execution context", a value carrying the branched store it reads and writes, the block
  header, the consensus parameters, the vote information, the block gas meter and the
  execution mode; every \<open>WithX\<close> of the source is the update of the field \<open>X\<close>.
\<close>

record 'ms Context =
  ctx_MultiStore :: 'ms
  ctx_BlockHeader :: Header
  ctx_HeaderHash :: bytes
  ctx_HeaderInfo :: "HeaderInfo option"
  ctx_ConsensusParams :: "ConsensusParams option"
  ctx_VoteInfos :: "VoteInfo list"
  ctx_ExecMode :: ExecMode
  ctx_CometInfo :: "cometInfo option"
  ctx_BlockGasMeter :: "GasMeter option"
  ctx_IsCheckTx :: bool
  ctx_MinGasPrices :: "DecCoins option"

definition NewContext :: "'ms \<Rightarrow> Header \<Rightarrow> bool \<Rightarrow> 'ms Context" where
  "NewContext ms header isCheckTx =
     \<lparr>ctx_MultiStore = ms, ctx_BlockHeader = header, ctx_HeaderHash = [],
      ctx_HeaderInfo = None, ctx_ConsensusParams = None, ctx_VoteInfos = [],
      ctx_ExecMode = ExecModeCheck, ctx_CometInfo = None, ctx_BlockGasMeter = None,
      ctx_IsCheckTx = isCheckTx, ctx_MinGasPrices = None\<rparr>"

text \<open>\<open>type state struct { ms; mtx; ctx }\<close> of \<open>baseapp/state.go\<close>; the mutex has no value.\<close>

record 'ms state =
  ms :: 'ms
  ctx :: "'ms Context"


subsection \<open>The store facade and the snapshot manager\<close>

text \<open>
  The versioned multi-store is an external collaborator, consumed through its interface: the
  record holds what each interface method answers. \<open>Queryable\<close> is \<open>None\<close> when the store
  does not implement \<open>sdk.Queryable\<close>, \<open>GetCommitInfo\<close> is \<open>None\<close> when it is not a
  \<open>rootmulti.Store\<close>. \<open>SetInitialVersion\<close> records the version, unless the store refuses.
\<close>

record 'ms MultiStore =
  LastCommitID :: CommitID
  LatestVersion :: int64
  CacheMultiStore :: 'ms
  CacheMultiStoreWithVersion :: "int64 \<Rightarrow> error + 'ms"
  initialVersion :: int64
  SetInitialVersionError :: "int64 \<Rightarrow> error option"
  Queryable :: "(RequestQuery \<Rightarrow> ResponseQuery outcome) option"
  GetCommitInfo :: "(int64 \<Rightarrow> error + Time option) option"

definition SetInitialVersion :: "'ms MultiStore \<Rightarrow> int64 \<Rightarrow> error + 'ms MultiStore" where
  "SetInitialVersion store v =
     (case SetInitialVersionError store v of
        Some err \<Rightarrow> Inl err
      | None \<Rightarrow> Inr (store\<lparr>initialVersion := v\<rparr>))"

record SnapshotManager =
  GetSnapshotBlockRetentionHeights :: int64

subsection \<open>The application\<close>

text \<open>
  \<open>BaseApp\<close>: the fields that \<open>abci.go\<close> reads and writes. The methods of \<open>BaseApp\<close> that
  are defined outside the sources at hand (\<open>GetConsensusParams\<close>, \<open>StoreConsensusParams\<close>,
  \<open>getBlockGasMeter\<close>, \<open>preBlock\<close>, \<open>beginBlock\<close>, \<open>deliverTx\<close>, \<open>endBlock\<close>,
  \<open>Simulate\<close>) and the injected collaborators (\<open>txDecoder\<close>, \<open>initChainer\<close>, the gRPC
  router, the peer filters, the sort of validator updates) are function-valued fields: they
  are parameters of the model. The block hooks work on the \<open>finalize\<close> mode state, which
  they may change; they may fail with an error and they may panic.
\<close>

type_synonym 'ms GRPCQueryHandler =
  "'ms Context \<Rightarrow> RequestQuery \<Rightarrow> (error + ResponseQuery) outcome"

record ('ms, 'tx) BaseApp =
  name :: string
  version :: string
  chainID :: string
  initialHeight :: int64
  minRetainBlocks :: uint64
  haltHeight :: uint64
  haltTime :: uint64
  minGasPrices :: "DecCoins option"
  cms :: "'ms MultiStore"
  qms :: "'ms MultiStore option"
  checkState :: "'ms state option"
  finalizeBlockState :: "'ms state option"
  snapshotManager :: "SnapshotManager option"
  txDecoder :: "bytes \<Rightarrow> error + 'tx"
  initChainer ::
    "('ms state \<Rightarrow> RequestInitChain \<Rightarrow> (ResponseInitChain \<times> 'ms state) outcome) option"
  grpcQueryRouter :: "string \<Rightarrow> 'ms GRPCQueryHandler option"
  addrPeerFilter :: "(string \<Rightarrow> ResponseQuery outcome) option"
  idPeerFilter :: "(string \<Rightarrow> ResponseQuery outcome) option"
  sortValidatorUpdates :: "ValidatorUpdate list \<Rightarrow> ValidatorUpdate list"
  GetConsensusParams :: "'ms Context \<Rightarrow> ConsensusParams option"
  StoreConsensusParams :: "'ms state \<Rightarrow> ConsensusParams \<Rightarrow> 'ms state"
  getBlockGasMeter :: "'ms Context \<Rightarrow> GasMeter"
  preBlock ::
    "RequestFinalizeBlock \<Rightarrow> 'ms state \<Rightarrow> ((error + Event list) \<times> 'ms state) outcome"
  beginBlock ::
    "RequestFinalizeBlock \<Rightarrow> 'ms state \<Rightarrow> ((error + Event list) \<times> 'ms state) outcome"
  deliverTx :: "bytes \<Rightarrow> 'ms state \<Rightarrow> (ExecTxResult \<times> 'ms state) outcome"
  endBlock ::
    "'ms state \<Rightarrow> ((error + Event list \<times> ValidatorUpdate list) \<times> 'ms state) outcome"
  Simulate :: "bytes \<Rightarrow> (error + SimulationResponse) outcome"
  ProtoMarshalJSON :: "SimulationResponse \<Rightarrow> error + bytes"

text \<open>
  Modelled from the spec: \<open>LastBlockHeight\<close> and \<open>setState\<close> are defined in
  \<open>baseapp.go\<close>, which is not part of the sources at hand. The last block height is the
  version of the last commit of the root store. Entering a mode "always discards any prior
  branched view" and pairs a fresh branch of the committed store with a context built from
  the header.
\<close>

definition LastBlockHeight :: "('ms, 'tx) BaseApp \<Rightarrow> int64" where
  "LastBlockHeight app = Version (LastCommitID (cms app))"

datatype execMode = runTxModeCheck | execModeFinalize

definition setState :: "('ms, 'tx) BaseApp \<Rightarrow> execMode \<Rightarrow> Header \<Rightarrow> ('ms, 'tx) BaseApp" where
  "setState app mode header =
     (let branch = CacheMultiStore (cms app);
          baseState = \<lparr>ms = branch, ctx = NewContext branch header False\<rparr>
      in case mode of
           runTxModeCheck \<Rightarrow> app\<lparr>checkState := Some baseState\<rparr>
         | execModeFinalize \<Rightarrow> app\<lparr>finalizeBlockState := Some baseState\<rparr>)"

section \<open>Block retention\<close>

definition minNonZero :: "int64 \<Rightarrow> int64 \<Rightarrow> int64" where
  "minNonZero x y =
     (if x = 0 then y
      else if y = 0 then x
      else if x <s y then x
      else y)"

text \<open>
  \<open>GetBlockRetentionHeight\<close>. Reading \<open>app.finalizeBlockState.ctx\<close> through a nil
  \<open>finalizeBlockState\<close> is a nil pointer dereference.
\<close>

definition GetBlockRetentionHeight :: "('ms, 'tx) BaseApp \<Rightarrow> int64 \<Rightarrow> int64 outcome" where
  "GetBlockRetentionHeight app commitHeight =
     (if minRetainBlocks app = 0 then Return 0
      else case finalizeBlockState app of
        None \<Rightarrow> Panic nilPointerDereference
      | Some fbs \<Rightarrow>
          let retentionHeight = 0;
              cp = GetConsensusParams app (ctx fbs);
              retentionHeight =
                (case cp of
                   None \<Rightarrow> retentionHeight
                 | Some p \<Rightarrow>
                     (case Evidence p of
                        None \<Rightarrow> retentionHeight
                      | Some ev \<Rightarrow>
                          if 0 <s MaxAgeNumBlocks ev
                          then commitHeight - MaxAgeNumBlocks ev
                          else retentionHeight));
              retentionHeight =
                (case snapshotManager app of
                   None \<Rightarrow> retentionHeight
                 | Some sm \<Rightarrow>
                     let snapshotRetentionHeights = GetSnapshotBlockRetentionHeights sm
                     in if 0 <s snapshotRetentionHeights
                        then minNonZero retentionHeight (commitHeight - snapshotRetentionHeights)
                        else retentionHeight);
              v = commitHeight - minRetainBlocks app;
              retentionHeight = minNonZero retentionHeight v
          in if retentionHeight \<le>s 0 then Return 0 else Return retentionHeight)"

section \<open>Block execution\<close>



text \<open>
  The caller's \<open>context.Context\<close> is used for cancellation only. The source looks at it in a
  \<open>select\<close> on \<open>ctx.Done()\<close> at its yield points, which are numbered in the order of their
  execution: \<open>0\<close> after \<open>beginBlock\<close>, \<open>i + 1\<close> after the transaction of index \<open>i\<close>, and
  \<open>length txs + 1\<close> after \<open>endBlock\<close>. The context is modelled by what these selects see:
  \<open>c k = Some err\<close> when the context is done at yield point \<open>k\<close>, \<open>err\<close> being \<open>ctx.Err()\<close>.
\<close>

type_synonym cancelCtx = "nat \<Rightarrow> error option"


text \<open>
  The loop over \<open>req.Txs\<close> of \<open>internalFinalizeBlock\<close>: \<open>k\<close> is the number of the yield
  point after the current transaction, \<open>fbs\<close> the \<open>finalize\<close> state, \<open>txResults\<close> the
  results appended so far.
\<close>

fun executeTxs ::
  "('ms, 'tx) BaseApp \<Rightarrow> cancelCtx \<Rightarrow> nat \<Rightarrow> bytes list \<Rightarrow> 'ms state \<Rightarrow> ExecTxResult list
     \<Rightarrow> ((error + ExecTxResult list) \<times> 'ms state) outcome" where
  "executeTxs app c k [] fbs txResults = Return (Inr txResults, fbs)"
| "executeTxs app c k (rawTx # txs) fbs txResults =
     (case (case txDecoder app rawTx of
              Inr tx \<Rightarrow> deliverTx app rawTx fbs
            | Inl err \<Rightarrow> Return (ResponseExecTxResultWithEvents ErrTxDecode 0 0 [], fbs)) of
        Panic v \<Rightarrow> Panic v
      | Return (response, fbs') \<Rightarrow>
          (case c k of
             Some err \<Rightarrow> Return (Inl err, fbs')
           | None \<Rightarrow> executeTxs app c (Suc k) txs fbs' (txResults @ [response])))"





section \<open>Chain initialisation\<close>

text \<open>
  The sanity check of \<open>InitChain\<close> walks the indices of the returned validators and
  compares each with the validator of that index in the request; \<open>proto.Equal\<close> is equality
  of the two messages. \<open>Some v\<close> is the value the loop panics with.
\<close>

fun compareValidators ::
  "nat \<Rightarrow> ValidatorUpdate list \<Rightarrow> ValidatorUpdate list \<Rightarrow> val option" where
  "compareValidators i [] reqValidators = None"
| "compareValidators i (v # resValidators) reqValidators =
     (if length reqValidators \<le> i then Some indexOutOfRange
      else if v \<noteq> reqValidators ! i
      then Some (VErr (Errorf ''genesisValidators[%d] != req.Validators[%d] ''
                         [VInt (int i), VInt (int i)]))
      else compareValidators (Suc i) resValidators reqValidators)"

text \<open>
  \<open>InitChain\<close>. \<open>Sum256\<close> is \<open>crypto/sha256.Sum256\<close> of the Go library, a parameter of the
  model. \<open>sort.Sort(abci.ValidatorUpdates(...))\<close> sorts in place by an order that the
  consensus engine's package defines: it is the field \<open>sortValidatorUpdates\<close>. The response
  carries the validators as the sort left them.
\<close>

definition InitChain ::
  "(bytes \<Rightarrow> bytes) \<Rightarrow> ('ms, 'tx) BaseApp \<Rightarrow> RequestInitChain
     \<Rightarrow> (ResponseInitChain \<times> ('ms, 'tx) BaseApp) outcome" where
  "InitChain Sum256 app req =
     (if ic_ChainId req \<noteq> chainID app
      then Panic (Sprintf ''invalid chain-id on InitChain; expected: %s, got: %s''
                    [VStr (chainID app), VStr (ic_ChainId req)])
      else
     (let initHeader = \<lparr>h_ChainID = ic_ChainId req, h_Height = 0, h_Time = ic_Time req,
            h_ProposerAddress = [], h_NextValidatorsHash = [], h_AppHash = []\<rparr>;
          app = app\<lparr>initialHeight := ic_InitialHeight req\<rparr>
      in case (if 1 <s ic_InitialHeight req
               then (case SetInitialVersion (cms app) (ic_InitialHeight req) of
                       Inl err \<Rightarrow> Inl err
                     | Inr store \<Rightarrow>
                         Inr (initHeader\<lparr>h_Height := ic_InitialHeight req\<rparr>,
                              app\<lparr>cms := store\<rparr>))
               else Inr (initHeader, app)) of
        Inl err \<Rightarrow> Panic (VErr err)
      | Inr (initHeader, app) \<Rightarrow>
     (let app = setState app execModeFinalize initHeader;
          app = setState app runTxModeCheck initHeader
      in case finalizeBlockState app of
        None \<Rightarrow> Panic nilPointerDereference
      | Some fbs \<Rightarrow>
     (let fbs = (case ic_ConsensusParams req of
                   Some cp \<Rightarrow> StoreConsensusParams app fbs cp
                 | None \<Rightarrow> fbs)
      in case initChainer app of
        None \<Rightarrow> Return (emptyResponseInitChain, app\<lparr>finalizeBlockState := Some fbs\<rparr>)
      | Some chainer \<Rightarrow>
     (let fbs = fbs\<lparr>ctx := (ctx fbs)\<lparr>ctx_BlockGasMeter := Some NewInfiniteGasMeter\<rparr>\<rparr>
      in case chainer fbs req of
        Panic v \<Rightarrow> Panic v
      | Return (res, fbs) \<Rightarrow>
     (let app = app\<lparr>finalizeBlockState := Some fbs\<rparr>
      in case (if 0 < length (ic_Validators req)
               then (if length (ic_Validators req) \<noteq> length (ric_Validators res)
                     then Inl (VErr (Errorf
                       ''len(RequestInitChain.Validators) != len(GenesisValidators) (%d != %d)''
                       [VInt (int (length (ic_Validators req))),
                        VInt (int (length (ric_Validators res)))]))
                     else
                       let reqValidators = sortValidatorUpdates app (ic_Validators req);
                           resValidators = sortValidatorUpdates app (ric_Validators res)
                       in case compareValidators 0 resValidators reqValidators of
                            Some v \<Rightarrow> Inl v
                          | None \<Rightarrow> Inr resValidators)
               else Inr (ric_Validators res)) of
        Inl v \<Rightarrow> Panic v
      | Inr resValidators \<Rightarrow>
     (let appHash = (if \<not> IsZero (LastCommitID (cms app))
                     then Hash (LastCommitID (cms app))
                     else Sum256 [])
      in Return (\<lparr>ric_ConsensusParams = ric_ConsensusParams res,
                   ric_Validators = resValidators,
                   ric_AppHash = appHash\<rparr>, app))))))))"

section \<open>Queries\<close>

definition QueryPathApp :: string where "QueryPathApp = ''app''"
definition QueryPathCustom :: string where "QueryPathCustom = ''custom''"
definition QueryPathP2P :: string where "QueryPathP2P = ''p2p''"
definition QueryPathStore :: string where "QueryPathStore = ''store''"

text \<open>
  \<open>strings.Split(s, "/")\<close> and \<open>strings.Join(xs, "/")\<close> of the Go library, for the one
  separator the source uses: splitting the empty string gives one empty segment.
\<close>

fun strings_Split :: "string \<Rightarrow> string list" where
  "strings_Split [] = [[]]"
| "strings_Split (ch # rest) =
     (if ch = CHR ''/'' then [] # strings_Split rest
      else (case strings_Split rest of
              [] \<Rightarrow> [[ch]]
            | seg # segs \<Rightarrow> (ch # seg) # segs))"

fun strings_Join :: "string list \<Rightarrow> string" where
  "strings_Join [] = []"
| "strings_Join [seg] = seg"
| "strings_Join (seg # segs) = seg @ ''/'' @ strings_Join segs"

definition SplitABCIQueryPath :: "string \<Rightarrow> string list" where
  "SplitABCIQueryPath requestPath =
     (let path = strings_Split requestPath
      in if 0 < length path \<and> hd path = [] then tl path else path)"

definition FilterPeerByAddrPort :: "('ms, 'tx) BaseApp \<Rightarrow> string \<Rightarrow> ResponseQuery outcome" where
  "FilterPeerByAddrPort app info =
     (case addrPeerFilter app of
        Some peerFilter \<Rightarrow> peerFilter info
      | None \<Rightarrow> Return emptyResponseQuery)"

definition FilterPeerByID :: "('ms, 'tx) BaseApp \<Rightarrow> string \<Rightarrow> ResponseQuery outcome" where
  "FilterPeerByID app info =
     (case idPeerFilter app of
        Some peerFilter \<Rightarrow> peerFilter info
      | None \<Rightarrow> Return emptyResponseQuery)"

definition gRPCErrorToSDKError :: "error \<Rightarrow> error" where
  "gRPCErrorToSDKError err =
     (case err of
        StatusError code msg \<Rightarrow>
          (case code of
             NotFound \<Rightarrow> Wrapf ErrKeyNotFound ''%s'' [VErr err]
           | InvalidArgument \<Rightarrow> Wrapf ErrInvalidRequest ''%s'' [VErr err]
           | FailedPrecondition \<Rightarrow> Wrapf ErrInvalidRequest ''%s'' [VErr err]
           | Unauthenticated \<Rightarrow> Wrapf ErrUnauthorized ''%s'' [VErr err]
           | OtherCode \<Rightarrow> Wrapf ErrUnknownRequest ''%s'' [VErr err])
      | _ \<Rightarrow> Wrapf ErrInvalidRequest ''%s'' [VErr err])"

definition checkNegativeHeight :: "int64 \<Rightarrow> error option" where
  "checkNegativeHeight height =
     (if height <s 0
      then Some (Wrap ErrInvalidRequest
                   ''cannot query with height < 0; please provide a valid height'')
      else None)"

text \<open>
  \<open>CreateQueryContext\<close>. The context is built from the header of the \<open>check\<close> state, read
  through the pointer \<open>app.checkState\<close>; \<open>WithBlockHeight\<close> and \<open>WithBlockTime\<close> write the
  height and the time of the context's header.
\<close>

definition CreateQueryContext ::
  "('ms, 'tx) BaseApp \<Rightarrow> int64 \<Rightarrow> bool \<Rightarrow> (error + 'ms Context) outcome" where
  "CreateQueryContext app height prove =
     (case checkNegativeHeight height of
        Some err \<Rightarrow> Return (Inl err)
      | None \<Rightarrow>
     (let queryStore = (case qms app of None \<Rightarrow> cms app | Some store \<Rightarrow> store);
          lastBlockHeight = LatestVersion queryStore
      in if lastBlockHeight = 0
         then Return (Inl (Wrapf ErrInvalidHeight
                ''%s is not ready; please wait for first block'' [VStr (name app)]))
         else if lastBlockHeight <s height
         then Return (Inl (Wrap ErrInvalidHeight
                ''cannot query with height in the future; please provide a valid height''))
         else
     (let height = (if height = 0 then lastBlockHeight else height)
      in if height \<le>s 1 \<and> prove
         then Return (Inl (Wrap ErrInvalidRequest
                ''cannot query with proof when height <= 1; please provide a valid height''))
         else
     (case CacheMultiStoreWithVersion queryStore height of
        Inl err \<Rightarrow>
          Return (Inl (Wrapf ErrInvalidRequest
            ''failed to load state at height %d; %s (latest height: %d)''
            [VInt (sint height), VErr err, VInt (sint lastBlockHeight)]))
      | Inr cacheMS \<Rightarrow>
     (case checkState app of
        None \<Rightarrow> Panic nilPointerDereference
      | Some cs \<Rightarrow>
     (let qctx = NewContext cacheMS (ctx_BlockHeader (ctx cs)) True;
          qctx = qctx\<lparr>ctx_MinGasPrices := minGasPrices app\<rparr>;
          qctx = qctx\<lparr>ctx_BlockHeader := (ctx_BlockHeader qctx)\<lparr>h_Height := height\<rparr>\<rparr>;
          qctx =
            (if height \<noteq> lastBlockHeight
             then (case GetCommitInfo (cms app) of
                     None \<Rightarrow> qctx
                   | Some getCommitInfo \<Rightarrow>
                       (case getCommitInfo height of
                          Inr (Some timestamp) \<Rightarrow>
                            qctx\<lparr>ctx_BlockHeader :=
                              (ctx_BlockHeader qctx)\<lparr>h_Time := timestamp\<rparr>\<rparr>
                        | _ \<Rightarrow> qctx))
             else qctx)
      in Return (Inr qctx)))))))"

definition handleQueryGRPC ::
  "('ms, 'tx) BaseApp \<Rightarrow> 'ms GRPCQueryHandler \<Rightarrow> RequestQuery \<Rightarrow> ResponseQuery outcome" where
  "handleQueryGRPC app handler req =
     (case CreateQueryContext app (q_Height req) (q_Prove req) of
        Panic v \<Rightarrow> Panic v
      | Return (Inl err) \<Rightarrow> Return (QueryResult err)
      | Return (Inr qctx) \<Rightarrow>
          (case handler qctx req of
             Panic v \<Rightarrow> Panic v
           | Return (Inl err) \<Rightarrow>
               Return ((QueryResult (gRPCErrorToSDKError err))\<lparr>rq_Height := q_Height req\<rparr>)
           | Return (Inr res) \<Rightarrow> Return res))"

definition handleQueryApp ::
  "('ms, 'tx) BaseApp \<Rightarrow> string list \<Rightarrow> RequestQuery \<Rightarrow> ResponseQuery outcome" where
  "handleQueryApp app path req =
     (if 2 \<le> length path
      then (if path ! 1 = ''simulate''
            then (case Simulate app (q_Data req) of
                    Panic v \<Rightarrow> Panic v
                  | Return (Inl err) \<Rightarrow>
                      Return (QueryResult (Wrap err ''failed to simulate tx''))
                  | Return (Inr simRes) \<Rightarrow>
                      (case ProtoMarshalJSON app simRes of
                         Inl err \<Rightarrow>
                           Return (QueryResult
                             (Wrap err ''failed to JSON encode simulation response''))
                       | Inr bz \<Rightarrow>
                           Return \<lparr>rq_Code = 0, rq_Codespace = RootCodespace, rq_Value = bz,
                                   rq_Height = q_Height req\<rparr>))
            else if path ! 1 = ''version''
            then Return \<lparr>rq_Code = 0, rq_Codespace = RootCodespace,
                         rq_Value = map of_char (version app), rq_Height = q_Height req\<rparr>
            else Return (QueryResult (Wrapf ErrUnknownRequest ''unknown query: %s''
                           [VStrs path])))
      else Return (QueryResult (Wrap ErrUnknownRequest
             ''expected second parameter to be either 'simulate' or 'version', neither was present'')))"

definition handleQueryStore ::
  "('ms, 'tx) BaseApp \<Rightarrow> string list \<Rightarrow> RequestQuery \<Rightarrow> ResponseQuery outcome" where
  "handleQueryStore app path req =
     (case Queryable (cms app) of
        None \<Rightarrow>
          Return (QueryResult (Wrap ErrUnknownRequest ''multistore doesn't support queries''))
      | Some queryable \<Rightarrow>
          (let req = req\<lparr>q_Path := ''/'' @ strings_Join (drop 1 path)\<rparr>
           in if q_Height req \<le>s 1 \<and> q_Prove req
              then Return (QueryResult (Wrap ErrInvalidRequest
                ''cannot query with proof when height <= 1; please provide a valid height''))
              else (case queryable req of
                      Panic v \<Rightarrow> Panic v
                    | Return resp \<Rightarrow> Return (resp\<lparr>rq_Height := q_Height req\<rparr>))))"

definition handleQueryP2P :: "('ms, 'tx) BaseApp \<Rightarrow> string list \<Rightarrow> ResponseQuery outcome" where
  "handleQueryP2P app path =
     (if length path < 4
      then Return (QueryResult (Wrap ErrUnknownRequest
             ''path should be p2p filter <addr|id> <parameter>''))
      else
        let resp = emptyResponseQuery;
            cmd = path ! 1; typ = path ! 2; arg = path ! 3
        in if cmd = ''filter''
           then (if typ = ''addr'' then FilterPeerByAddrPort app arg
                 else if typ = ''id'' then FilterPeerByID app arg
                 else Return resp)
           else Return (QueryResult (Wrap ErrUnknownRequest
                  (''expected second parameter to be 'filter'' @ [CHR 0x27]))))"

text \<open>
  \<open>Query\<close>. The body runs under the deferred \<open>recover\<close>, which turns a panic of the body
  into the result of the call. The telemetry counters and timer are not modelled.
\<close>

definition queryBody :: "('ms, 'tx) BaseApp \<Rightarrow> RequestQuery \<Rightarrow> ResponseQuery outcome" where
  "queryBody app req =
     (let req = (if q_Height req = 0 then req\<lparr>q_Height := LastBlockHeight app\<rparr> else req)
      in if q_Path req = ''/cosmos.tx.v1beta1.Service/BroadcastTx''
         then Return (QueryResult (Wrap ErrInvalidRequest ''can't route a broadcast tx message''))
         else (case grpcQueryRouter app (q_Path req) of
                 Some grpcHandler \<Rightarrow> handleQueryGRPC app grpcHandler req
               | None \<Rightarrow>
                   (let path = SplitABCIQueryPath (q_Path req)
                    in if length path = 0
                       then Return (QueryResult
                              (Wrap ErrUnknownRequest ''no query path provided''))
                       else if path ! 0 = QueryPathApp then handleQueryApp app path req
                       else if path ! 0 = QueryPathStore then handleQueryStore app path req
                       else if path ! 0 = QueryPathP2P then handleQueryP2P app path
                       else Return (QueryResult
                              (Wrap ErrUnknownRequest ''unknown query path'')))))"

definition Query :: "('ms, 'tx) BaseApp \<Rightarrow> RequestQuery \<Rightarrow> ResponseQuery outcome" where
  "Query app req =
     (case queryBody app req of
        Panic r \<Rightarrow> Return (QueryResult (Wrapf ErrPanic ''%v'' [r]))
      | Return res \<Rightarrow> Return res)"

section \<open>What the specification says, in its own words\<close>

text \<open>
  The retention height of the specification: the minimum (as signed 64-bit numbers) of the
  constraints that are configured and not zero, floored at zero. A constraint is
  \<open>commitHeight - x\<close> in the arithmetic of \<open>int64\<close>.
\<close>

definition smin :: "int64 \<Rightarrow> int64 \<Rightarrow> int64" where
  "smin x y = (if x <s y then x else y)"

definition retentionConstraints ::
  "('ms, 'tx) BaseApp \<Rightarrow> 'ms state \<Rightarrow> int64 \<Rightarrow> int64 list" where
  "retentionConstraints app fbs commitHeight =
     (case GetConsensusParams app (ctx fbs) of
        None \<Rightarrow> []
      | Some p \<Rightarrow>
          (case Evidence p of
             None \<Rightarrow> []
           | Some ev \<Rightarrow>
               if 0 <s MaxAgeNumBlocks ev then [commitHeight - MaxAgeNumBlocks ev] else []))
     @ (case snapshotManager app of
          None \<Rightarrow> []
        | Some sm \<Rightarrow>
            if 0 <s GetSnapshotBlockRetentionHeights sm
            then [commitHeight - GetSnapshotBlockRetentionHeights sm] else [])
     @ [commitHeight - minRetainBlocks app]"

definition minOfNonZero :: "int64 list \<Rightarrow> int64" where
  "minOfNonZero cs =
     (case filter (\<lambda>c. c \<noteq> 0) cs of [] \<Rightarrow> 0 | c # rest \<Rightarrow> foldl smin c rest)"



text \<open>
  What one slot of the per-transaction results holds: the synthetic failure for a
  transaction that does not decode, and the result of delivering it otherwise.
  \<open>stateBeforeTx app txs i fbs\<close> is the \<open>finalize\<close> state in which the transaction of index
  \<open>i\<close> runs, when the transactions before it ran one after the other from \<open>fbs\<close>.
\<close>

definition decodeFailure :: ExecTxResult where
  "decodeFailure = ResponseExecTxResultWithEvents ErrTxDecode 0 0 []"

definition runOneTx ::
  "('ms, 'tx) BaseApp \<Rightarrow> bytes \<Rightarrow> 'ms state \<Rightarrow> (ExecTxResult \<times> 'ms state) outcome" where
  "runOneTx app rawTx fbs =
     (case txDecoder app rawTx of
        Inl err \<Rightarrow> Return (decodeFailure, fbs)
      | Inr tx \<Rightarrow> deliverTx app rawTx fbs)"


text \<open>
  Queries: the store that a query context is built on, the height of a request once an
  unset height (zero) is replaced by the latest committed height, and the height that the
  query context finally uses. The four errors are the ones \<open>CreateQueryContext\<close> rejects a
  height with.
\<close>

definition queryMultiStore :: "('ms, 'tx) BaseApp \<Rightarrow> 'ms MultiStore" where
  "queryMultiStore app = (case qms app of None \<Rightarrow> cms app | Some store \<Rightarrow> store)"

definition requestedHeight :: "('ms, 'tx) BaseApp \<Rightarrow> RequestQuery \<Rightarrow> int64" where
  "requestedHeight app req = (if q_Height req = 0 then LastBlockHeight app else q_Height req)"

definition notReadyError :: "('ms, 'tx) BaseApp \<Rightarrow> error" where
  "notReadyError app =
     Wrapf ErrInvalidHeight ''%s is not ready; please wait for first block'' [VStr (name app)]"

definition negativeHeightError :: error where
  "negativeHeightError =
     Wrap ErrInvalidRequest ''cannot query with height < 0; please provide a valid height''"

definition futureHeightError :: error where
  "futureHeightError =
     Wrap ErrInvalidHeight ''cannot query with height in the future; please provide a valid height''"

definition proofHeightError :: error where
  "proofHeightError =
     Wrap ErrInvalidRequest
       ''cannot query with proof when height <= 1; please provide a valid height''"

definition BroadcastTxPath :: string where
  "BroadcastTxPath = ''/cosmos.tx.v1beta1.Service/BroadcastTx''"

definition resolvedHeight :: "('ms, 'tx) BaseApp \<Rightarrow> RequestQuery \<Rightarrow> int64" where
  "resolvedHeight app req =
     (if requestedHeight app req = 0 then LatestVersion (queryMultiStore app)
      else requestedHeight app req)"

section \<open>An example application\<close>

text \<open>
  A small application for the concrete instances: its branched store is the list of the raw
  transactions delivered so far, a raw transaction decodes unless it is empty, and the hooks
  do nothing.
\<close>

definition exampleStore :: "bytes list MultiStore" where
  "exampleStore =
     \<lparr>LastCommitID = \<lparr>Version = 0, Hash = []\<rparr>, LatestVersion = 0, CacheMultiStore = [],
      CacheMultiStoreWithVersion = (\<lambda>h. Inr []), initialVersion = 0,
      SetInitialVersionError = (\<lambda>v. None), Queryable = None, GetCommitInfo = None\<rparr>"

definition exampleTxResult :: "bytes \<Rightarrow> ExecTxResult" where
  "exampleTxResult rawTx =
     \<lparr>tx_Code = 0, tx_Codespace = [], tx_Data = rawTx, tx_GasWanted = 10, tx_GasUsed = 7,
      tx_Events = []\<rparr>"

definition exampleApp :: "(bytes list, bytes) BaseApp" where
  "exampleApp =
     \<lparr>name = ''example'', version = ''v1'', chainID = ''chain-1'', initialHeight = 1,
      minRetainBlocks = 0, haltHeight = 0, haltTime = 0, minGasPrices = None,
      cms = exampleStore, qms = None, checkState = None, finalizeBlockState = None,
      snapshotManager = None,
      txDecoder = (\<lambda>bz. if bz = [] then Inl ErrTxDecode else Inr bz),
      initChainer = None,
      grpcQueryRouter = (\<lambda>path. None),
      addrPeerFilter = None, idPeerFilter = None,
      sortValidatorUpdates = (\<lambda>vs. vs),
      GetConsensusParams = (\<lambda>c. ctx_ConsensusParams c),
      StoreConsensusParams = (\<lambda>st cp. st\<lparr>ctx := (ctx st)\<lparr>ctx_ConsensusParams := Some cp\<rparr>\<rparr>),
      getBlockGasMeter = (\<lambda>c. NewInfiniteGasMeter),
      preBlock = (\<lambda>req st. Return (Inr [], st)),
      beginBlock = (\<lambda>req st. Return (Inr [], st)),
      deliverTx = (\<lambda>rawTx st. Return (exampleTxResult rawTx, st\<lparr>ms := ms st @ [rawTx]\<rparr>)),
      endBlock = (\<lambda>st. Return (Inr ([], []), st)),
      Simulate = (\<lambda>bz. Return (Inl ErrTxDecode)),
      ProtoMarshalJSON = (\<lambda>simRes. Inr [])\<rparr>"

definition exampleState :: "ConsensusParams option \<Rightarrow> bytes list state" where
  "exampleState cp =
     \<lparr>ms = [], ctx = (NewContext [] \<lparr>h_ChainID = ''chain-1'', h_Height = 0, h_Time = 0,
         h_ProposerAddress = [], h_NextValidatorsHash = [], h_AppHash = []\<rparr> False)
         \<lparr>ctx_ConsensusParams := cp\<rparr>\<rparr>"

definition evidenceParams :: "int64 \<Rightarrow> ConsensusParams" where
  "evidenceParams n =
     \<lparr>Block = None,
      Evidence = Some \<lparr>MaxAgeNumBlocks = n, MaxAgeDuration = 0, ev_MaxBytes = 0\<rparr>\<rparr>"

definition retentionApp :: "uint64 \<Rightarrow> (bytes list, bytes) BaseApp" where
  "retentionApp n =
     exampleApp\<lparr>minRetainBlocks := n,
                finalizeBlockState := Some (exampleState (Some (evidenceParams 100000)))\<rparr>"


definition exampleInitRequest :: "int64 \<Rightarrow> ValidatorUpdate list \<Rightarrow> RequestInitChain" where
  "exampleInitRequest h vs =
     \<lparr>ic_Time = 0, ic_ChainId = ''chain-1'', ic_ConsensusParams = None, ic_Validators = vs,
      ic_AppStateBytes = [], ic_InitialHeight = h\<rparr>"

text \<open>
  The digest that the source quotes for the empty input (\<open>e3b0c442 ... 7852b855\<close>), byte
  by byte in decimal.
\<close>

definition emptySum256 :: bytes where
  "emptySum256 =
     [227, 176, 196, 66, 152, 252, 28, 20,
      154, 251, 244, 200, 153, 111, 185, 36,
      39, 174, 65, 228, 100, 155, 147, 76,
      164, 149, 153, 27, 120, 82, 184, 85]"




text \<open>What a call returned, \<open>None\<close> when it panicked.\<close>

definition returned :: "'a outcome \<Rightarrow> 'a option" where
  "returned out = (case out of Panic v \<Rightarrow> None | Return x \<Rightarrow> Some x)"

text \<open>
  In the concrete instances \<open>exampleSum256\<close> stands for \<open>Sum256\<close>; the only input that
  \<open>InitChain\<close> hashes is the empty one, for which it gives the digest above.
\<close>

definition exampleSum256 :: "bytes \<Rightarrow> bytes" where
  "exampleSum256 bz = emptySum256"

definition exampleChainer ::
  "ValidatorUpdate list \<Rightarrow> bytes list state \<Rightarrow> RequestInitChain
     \<Rightarrow> (ResponseInitChain \<times> bytes list state) outcome" where
  "exampleChainer vs st req =
     Return (\<lparr>ric_ConsensusParams = None, ric_Validators = vs, ric_AppHash = []\<rparr>, st)"

definition chainerApp :: "ValidatorUpdate list \<Rightarrow> (bytes list, bytes) BaseApp" where
  "chainerApp vs = exampleApp\<lparr>initChainer := Some (exampleChainer vs)\<rparr>"

definition validatorA :: ValidatorUpdate where
  "validatorA = \<lparr>PubKey = [1], Power = 10\<rparr>"

definition validatorB :: ValidatorUpdate where
  "validatorB = \<lparr>PubKey = [2], Power = 10\<rparr>"

definition committedStore :: "int64 \<Rightarrow> bytes list MultiStore" where
  "committedStore n =
     exampleStore\<lparr>LastCommitID := \<lparr>Version = n, Hash = emptySum256\<rparr>, LatestVersion := n\<rparr>"

definition exampleHandler :: "bytes list GRPCQueryHandler" where
  "exampleHandler qctx req =
     Return (Inr \<lparr>rq_Code = 0, rq_Codespace = [], rq_Value = [1],
                  rq_Height = h_Height (ctx_BlockHeader qctx)\<rparr>)"

definition examplePath :: string where
  "examplePath = ''/cosmos.bank.v1beta1.Query/Balance''"

definition grpcApp :: "int64 \<Rightarrow> (bytes list, bytes) BaseApp" where
  "grpcApp n =
     exampleApp\<lparr>cms := committedStore n, checkState := Some (exampleState None),
       grpcQueryRouter := (\<lambda>path. if path = examplePath then Some exampleHandler else None)\<rparr>"

definition exampleQuery :: "string \<Rightarrow> int64 \<Rightarrow> bool \<Rightarrow> RequestQuery" where
  "exampleQuery path h prove = \<lparr>q_Data = [], q_Path = path, q_Height = h, q_Prove = prove\<rparr>"

section \<open>Properties of the retention height\<close>





text \<open>\<open>minOfNonZero\<close> is what its name says: a least element of the non-zero entries.\<close>

lemma foldl_smin_le: "foldl smin a xs \<le>s a"
proof (induction xs arbitrary: a)
  case Nil
  show ?case by simp
next
  case (Cons x xs)
  have "foldl smin (smin a x) xs \<le>s smin a x" by (rule Cons.IH)
  moreover have "smin a x \<le>s a" by (simp add: smin_def word_sle_eq word_sless_alt)
  ultimately show ?case by (simp add: word_sle_eq)
qed

lemma foldl_smin_lower: "x \<in> set xs \<Longrightarrow> foldl smin a xs \<le>s x"
proof (induction xs arbitrary: a)
  case Nil
  then show ?case by simp
next
  case (Cons y ys)
  show ?case
  proof (cases "x = y")
    case True
    have "foldl smin (smin a y) ys \<le>s smin a y" by (rule foldl_smin_le)
    moreover have "smin a y \<le>s y" by (simp add: smin_def word_sle_eq word_sless_alt)
    ultimately show ?thesis using True by (simp add: word_sle_eq)
  next
    case False
    with Cons.prems have "x \<in> set ys" by simp
    then show ?thesis using Cons.IH by simp
  qed
qed

lemma foldl_smin_mem: "foldl smin a xs \<in> insert a (set xs)"
proof (induction xs arbitrary: a)
  case Nil
  show ?case by simp
next
  case (Cons y ys)
  have "foldl smin (smin a y) ys \<in> insert (smin a y) (set ys)" by (rule Cons.IH)
  moreover have "smin a y = a \<or> smin a y = y" by (simp add: smin_def)
  ultimately show ?case by auto
qed

lemma minOfNonZero_is_minimum:
  assumes "c \<in> set cs" "c \<noteq> 0"
  shows "minOfNonZero cs \<in> set cs \<and> minOfNonZero cs \<noteq> 0 \<and> minOfNonZero cs \<le>s c"
proof -
  let ?nz = "filter (\<lambda>c. c \<noteq> 0) cs"
  from assms have mem: "c \<in> set ?nz" by simp
  then obtain a rest where nz: "?nz = a # rest" by (cases ?nz) auto
  have m: "minOfNonZero cs = foldl smin a rest" by (simp add: minOfNonZero_def nz)
  have "foldl smin a rest \<in> set ?nz" using foldl_smin_mem [of a rest] by (simp add: nz)
  then have in_nz: "minOfNonZero cs \<in> set ?nz" by (simp add: m)
  have "foldl smin a rest \<le>s c"
  proof (cases "c = a")
    case True
    then show ?thesis by (simp add: foldl_smin_le)
  next
    case False
    with mem nz have "c \<in> set rest" by simp
    then show ?thesis by (rule foldl_smin_lower)
  qed
  with in_nz m show ?thesis by simp
qed

lemma minOfNonZero_none: "\<forall>c \<in> set cs. c = 0 \<Longrightarrow> minOfNonZero cs = 0"
proof -
  assume "\<forall>c \<in> set cs. c = 0"
  then have "filter (\<lambda>c. c \<noteq> 0) cs = []" by (simp add: filter_empty_conv)
  then show ?thesis by (simp add: minOfNonZero_def)
qed

text \<open>
  For a commit height that is not negative and a \<open>minRetainBlocks\<close> below \<open>2 ^ 63\<close>
  nothing wraps around: every constraint is the difference of the two numbers.
\<close>

lemma sint_sub_nonneg:
  fixes a b :: int64
  assumes "0 \<le> sint a" "0 \<le> sint b"
  shows "sint (a - b) = sint a - sint b"
proof -
  have "sint a < 2 ^ 63" "sint b < 2 ^ 63"
    using sint_lt [of a] sint_lt [of b] by simp_all
  with assms have "- (2 ^ 63) \<le> sint a - sint b" "sint a - sint b < 2 ^ 63" by simp_all
  then have "signed_take_bit 63 (sint a - sint b) = sint a - sint b"
    by (rule signed_take_bit_int_eq_self)
  then show ?thesis by (simp add: sint_word_ariths)
qed

lemma retentionConstraints_exact:
  assumes "0 \<le> sint commitHeight" "0 \<le> sint (minRetainBlocks app)"
    and "c \<in> set (retentionConstraints app fbs commitHeight)"
  shows "\<exists>x. c = commitHeight - x \<and> 0 \<le> sint x \<and> sint c = sint commitHeight - sint x"
proof -
  from assms(3) obtain x where c: "c = commitHeight - x" and x: "0 <s x \<or> x = minRetainBlocks app"
    by (auto simp add: retentionConstraints_def split: option.splits if_splits)
  from x assms(2) have "0 \<le> sint x" by (auto simp add: word_sless_alt)
  with c assms(1) show ?thesis by (auto simp add: sint_sub_nonneg)
qed




text \<open>
  Claim C3, as stated, fails: with \<open>evidence.max_age_num_blocks = 100000\<close>, commit height
  \<open>150000\<close>, no snapshot manager and \<open>minRetainBlocks = 0\<close> the function returns \<open>0\<close>, not
  \<open>50000\<close>, because "pruning is disabled if minRetainBlocks is zero".
\<close>

theorem retention_scenario_counterexample:
  "snapshotManager (retentionApp 0) = None
   \<and> minRetainBlocks (retentionApp 0) = 0
   \<and> GetBlockRetentionHeight (retentionApp 0) 150000 = Return 0
   \<and> GetBlockRetentionHeight (retentionApp 0) 150000 \<noteq> Return 50000"
  by (simp add: GetBlockRetentionHeight_def retentionApp_def exampleApp_def)

text \<open>
  Claim C3, amended. With \<open>evidence.max_age_num_blocks = 100000\<close>, commit height \<open>150000\<close>
  and no snapshot manager, \<open>GetBlockRetentionHeight(150000)\<close> returns \<open>0\<close> when
  \<open>minRetainBlocks = 0\<close>; it returns \<open>50000\<close> when \<open>minRetainBlocks\<close> is between \<open>1\<close> and
  \<open>100000\<close>.
\<close>

theorem retention_scenario:
  assumes "snapshotManager app = None"
    and "finalizeBlockState app = Some fbs"
    and "GetConsensusParams app (ctx fbs) = Some p"
    and "Evidence p = Some ev"
    and "MaxAgeNumBlocks ev = 100000"
  shows "(minRetainBlocks app = 0 \<longrightarrow> GetBlockRetentionHeight app 150000 = Return 0)
    \<and> (0 < minRetainBlocks app \<and> minRetainBlocks app \<le> 100000 \<longrightarrow>
          GetBlockRetentionHeight app 150000 = Return 50000)"
proof (intro conjI impI)
  assume "minRetainBlocks app = 0"
  then show "GetBlockRetentionHeight app 150000 = Return 0"
    by (simp add: GetBlockRetentionHeight_def)
next
  assume m: "0 < minRetainBlocks app \<and> minRetainBlocks app \<le> 100000"
  define v where "v = (150000::int64) - minRetainBlocks app"
  have u: "uint (minRetainBlocks app) \<le> 100000" using m by (simp add: word_le_def)
  have "uint v = 150000 - uint (minRetainBlocks app)"
    unfolding v_def using u by (subst uint_sub_if') (auto simp: word_le_def)
  then have uv: "50000 \<le> uint v \<and> uint v < 150000" using u m by (simp add: word_less_def)
  have sv: "sint v = uint v"
    using uv by (simp add: sint_uint signed_take_bit_int_eq_self)
  have veq: "uint v = 50000 \<Longrightarrow> v = 50000"
    using word_uint_eq_iff [of v 50000] by simp
  have "minNonZero 50000 v = 50000"
    using uv sv veq by (auto simp add: minNonZero_def word_sless_alt)
  moreover have "minRetainBlocks app \<noteq> 0" using m by auto
  ultimately show "GetBlockRetentionHeight app 150000 = Return 50000"
    using assms by (simp add: GetBlockRetentionHeight_def v_def word_sle_eq word_sless_alt)
qed

theorem retention_scenario_witness:
  "snapshotManager (retentionApp 100000) = None
   \<and> finalizeBlockState (retentionApp 100000)
       = Some (exampleState (Some (evidenceParams 100000)))
   \<and> GetConsensusParams (retentionApp 100000)
         (ctx (exampleState (Some (evidenceParams 100000)))) = Some (evidenceParams 100000)
   \<and> MaxAgeNumBlocks (the (Evidence (evidenceParams 100000))) = 100000
   \<and> (0 :: uint64) < minRetainBlocks (retentionApp 100000)
   \<and> minRetainBlocks (retentionApp 100000) \<le> 100000
   \<and> GetBlockRetentionHeight (retentionApp 100000) 150000 = Return 50000"
proof -
  have a: "snapshotManager (retentionApp 100000) = None"
    by (simp add: retentionApp_def exampleApp_def)
  have b: "finalizeBlockState (retentionApp 100000)
       = Some (exampleState (Some (evidenceParams 100000)))"
    by (simp add: retentionApp_def)
  have c: "GetConsensusParams (retentionApp 100000)
         (ctx (exampleState (Some (evidenceParams 100000)))) = Some (evidenceParams 100000)"
    by (simp add: retentionApp_def exampleApp_def exampleState_def)
  have d: "Evidence (evidenceParams 100000)
      = Some \<lparr>MaxAgeNumBlocks = 100000, MaxAgeDuration = 0, ev_MaxBytes = 0\<rparr>"
    by (simp add: evidenceParams_def)
  have e: "MaxAgeNumBlocks \<lparr>MaxAgeNumBlocks = 100000, MaxAgeDuration = 0, ev_MaxBytes = 0\<rparr>
      = 100000" by simp
  have m: "(0 :: uint64) < minRetainBlocks (retentionApp 100000)
      \<and> minRetainBlocks (retentionApp 100000) \<le> 100000"
    by (simp add: retentionApp_def)
  from retention_scenario [OF a b c d e] m
  have "GetBlockRetentionHeight (retentionApp 100000) 150000 = Return 50000" by blast
  with a b c d m show ?thesis by simp
qed

section \<open>Properties of block execution\<close>

lemma executeTxs_step:
  "executeTxs app c k (rawTx # txs) fbs txResults =
     (case runOneTx app rawTx fbs of
        Panic v \<Rightarrow> Panic v
      | Return (response, fbs') \<Rightarrow>
          (case c k of
             Some err \<Rightarrow> Return (Inl err, fbs')
           | None \<Rightarrow> executeTxs app c (Suc k) txs fbs' (txResults @ [response])))"
  by (simp add: runOneTx_def decodeFailure_def split: sum.splits)

lemma runOneTx_cong:
  assumes "txDecoder a = txDecoder b" "deliverTx a = deliverTx b"
  shows "runOneTx a rawTx fbs = runOneTx b rawTx fbs"
  by (simp add: runOneTx_def assms split: sum.splits)

lemma executeTxs_cong:
  assumes "txDecoder a = txDecoder b" "deliverTx a = deliverTx b"
  shows "executeTxs a c k txs fbs acc = executeTxs b c k txs fbs acc"
proof (induction txs arbitrary: k fbs acc)
  case Nil
  show ?case by simp
next
  case (Cons rawTx txs)
  show ?case
    unfolding executeTxs_step runOneTx_cong [OF assms] using Cons.IH
    by (simp split: outcome.splits prod.splits option.splits)
qed



lemma setState_fields:
  "txDecoder (setState app m h) = txDecoder app"
  "deliverTx (setState app m h) = deliverTx app"
  "preBlock (setState app m h) = preBlock app"
  "beginBlock (setState app m h) = beginBlock app"
  "endBlock (setState app m h) = endBlock app"
  "cms (setState app m h) = cms app"
  "initialHeight (setState app m h) = initialHeight app"
  "GetConsensusParams (setState app m h) = GetConsensusParams app"
  "getBlockGasMeter (setState app m h) = getBlockGasMeter app"
  "initChainer (setState app m h) = initChainer app"
  by (simp_all add: setState_def Let_def split: execMode.splits)


lemma executeTxs_app_update [simp]:
  "executeTxs (app\<lparr>checkState := cs\<rparr>) c k txs fbs acc = executeTxs app c k txs fbs acc"
  "executeTxs (app\<lparr>finalizeBlockState := fs\<rparr>) c k txs fbs acc = executeTxs app c k txs fbs acc"
  "executeTxs (setState app m h) c k txs fbs acc = executeTxs app c k txs fbs acc"
  by (rule executeTxs_cong; simp add: setState_fields)+










lemma SetInitialVersion_LastCommitID:
  "SetInitialVersion store v = Inr store' \<Longrightarrow> LastCommitID store' = LastCommitID store"
  by (auto simp add: SetInitialVersion_def split: option.splits)

















section \<open>Properties of chain initialisation\<close>

lemma setState_sort:
  "sortValidatorUpdates (setState app m h) = sortValidatorUpdates app"
  "StoreConsensusParams (setState app m h) = StoreConsensusParams app"
  by (simp_all add: setState_def Let_def split: execMode.splits)



lemma InitChain_Return_chainer:
  assumes "InitChain Sum256 app req = Return (resp, app')"
    and "initChainer app = Some chainer"
  shows "\<exists>st res st'. chainer st req = Return (res, st')
    \<and> ric_ConsensusParams resp = ric_ConsensusParams res
    \<and> ric_AppHash resp = (if IsZero (LastCommitID (cms app)) then Sum256 []
                            else Hash (LastCommitID (cms app)))
    \<and> (if ic_Validators req = [] then ric_Validators resp = ric_Validators res
        else length (ic_Validators req) = length (ric_Validators res)
          \<and> compareValidators 0 (sortValidatorUpdates app (ric_Validators res))
               (sortValidatorUpdates app (ic_Validators req)) = None
          \<and> ric_Validators resp = sortValidatorUpdates app (ric_Validators res))"
  using assms
  by (auto simp add: InitChain_def Let_def setState_fields setState_sort
      split: if_splits sum.splits prod.splits option.splits outcome.splits
      dest!: SetInitialVersion_LastCommitID; blast)

lemma InitChain_Return_no_chainer:
  assumes "InitChain Sum256 app req = Return (resp, app')"
    and "initChainer app = None"
  shows "resp = emptyResponseInitChain"
  using assms
  by (auto simp add: InitChain_def Let_def setState_fields
      split: if_splits sum.splits prod.splits option.splits outcome.splits)


lemma exampleApp_InitChain1:
  "\<exists>app'. InitChain exampleSum256 exampleApp (exampleInitRequest 1 []) =
     Return (emptyResponseInitChain, app')"
  by (simp add: InitChain_def exampleApp_def exampleInitRequest_def
      exampleStore_def setState_def Let_def word_sless_alt)

text \<open>
  Claim C5, as stated, fails: without an \<open>initChainer\<close> the call returns early with the
  empty response, whose application hash is nil, although nothing was ever committed.
\<close>

theorem initchain_apphash_counterexample:
  "IsZero (LastCommitID (cms exampleApp))
   \<and> map_option (ric_AppHash \<circ> fst)
        (returned (InitChain exampleSum256 exampleApp (exampleInitRequest 1 []))) = Some []
   \<and> exampleSum256 [] \<noteq> []"
proof -
  from exampleApp_InitChain1 obtain app' where
    "InitChain exampleSum256 exampleApp (exampleInitRequest 1 []) =
       Return (emptyResponseInitChain, app')" by blast
  then show ?thesis
    by (simp add: returned_def emptyResponseInitChain_def IsZero_def exampleApp_def
        exampleStore_def exampleSum256_def emptySum256_def)
qed

text \<open>
  Claim C5, amended. When an \<open>initChainer\<close> is configured and \<open>InitChain\<close> returns, the
  application hash of the response is the SHA-256 digest of the empty byte string if the last
  commit identifier is zero, and the hash of the last commit otherwise; it is not nil, given
  that a commit identifier of a non-zero version carries a hash. Without an \<open>initChainer\<close>
  the response is the empty one, with a nil application hash.
\<close>

theorem initchain_apphash:
  assumes "InitChain Sum256 app req = Return (resp, app')"
  shows "(initChainer app \<noteq> None \<longrightarrow>
            ric_AppHash resp = (if IsZero (LastCommitID (cms app)) then Sum256 []
                                else Hash (LastCommitID (cms app))))
    \<and> (initChainer app \<noteq> None \<and> length (Sum256 []) = 32
         \<and> (Version (LastCommitID (cms app)) \<noteq> 0 \<longrightarrow> Hash (LastCommitID (cms app)) \<noteq> [])
         \<longrightarrow> ric_AppHash resp \<noteq> [])
    \<and> (initChainer app = None \<longrightarrow> resp = emptyResponseInitChain \<and> ric_AppHash resp = [])"
proof -
  have hash: "ric_AppHash resp = (if IsZero (LastCommitID (cms app)) then Sum256 []
                                else Hash (LastCommitID (cms app)))"
    if "initChainer app \<noteq> None"
  proof -
    from that obtain chainer where "initChainer app = Some chainer" by auto
    from InitChain_Return_chainer [OF assms this] show ?thesis by blast
  qed
  have nonnil: "ric_AppHash resp \<noteq> []"
    if "initChainer app \<noteq> None \<and> length (Sum256 []) = 32
         \<and> (Version (LastCommitID (cms app)) \<noteq> 0 \<longrightarrow> Hash (LastCommitID (cms app)) \<noteq> [])"
  proof (cases "IsZero (LastCommitID (cms app))")
    case True
    with that hash have "length (ric_AppHash resp) = 32" by simp
    then show ?thesis by auto
  next
    case False
    with that hash show ?thesis by (auto simp add: IsZero_def)
  qed
  have none: "resp = emptyResponseInitChain \<and> ric_AppHash resp = []"
    if "initChainer app = None"
    using InitChain_Return_no_chainer [OF assms that]
    by (simp add: emptyResponseInitChain_def)
  from hash nonnil none show ?thesis by blast
qed

lemma chainerApp_InitChain_empty:
  "\<exists>app'. InitChain exampleSum256 (chainerApp []) (exampleInitRequest 1 []) =
     Return (\<lparr>ric_ConsensusParams = None, ric_Validators = [], ric_AppHash = emptySum256\<rparr>, app')"
  by (simp add: InitChain_def chainerApp_def exampleChainer_def exampleApp_def
      exampleInitRequest_def exampleStore_def setState_def Let_def IsZero_def
      exampleSum256_def word_sless_alt)

theorem initchain_apphash_witness:
  "initChainer (chainerApp []) \<noteq> None
   \<and> length (exampleSum256 []) = 32
   \<and> IsZero (LastCommitID (cms (chainerApp [])))
   \<and> map_option (ric_AppHash \<circ> fst)
        (returned (InitChain exampleSum256 (chainerApp []) (exampleInitRequest 1 [])))
       = Some (exampleSum256 [])
   \<and> exampleSum256 [] \<noteq> []"
proof -
  from chainerApp_InitChain_empty obtain app' where
    run: "InitChain exampleSum256 (chainerApp []) (exampleInitRequest 1 []) =
     Return (\<lparr>ric_ConsensusParams = None, ric_Validators = [], ric_AppHash = emptySum256\<rparr>, app')"
    by blast
  have c: "initChainer (chainerApp []) \<noteq> None" by (simp add: chainerApp_def)
  have l: "length (exampleSum256 []) = 32" by (simp add: exampleSum256_def emptySum256_def)
  have z: "IsZero (LastCommitID (cms (chainerApp [])))"
    by (simp add: chainerApp_def exampleApp_def exampleStore_def IsZero_def)
  from initchain_apphash [OF run] c l z
  have "ric_AppHash \<lparr>ric_ConsensusParams = None, ric_Validators = [],
          ric_AppHash = emptySum256\<rparr> = exampleSum256 []
      \<and> ric_AppHash \<lparr>ric_ConsensusParams = None, ric_Validators = [],
          ric_AppHash = emptySum256\<rparr> \<noteq> []"
    by (simp add: IsZero_def)
  with c l z show ?thesis by (simp add: run returned_def)
qed


lemma chainerApp_InitChain_mismatch:
  "InitChain exampleSum256 (chainerApp [validatorB]) (exampleInitRequest 1 [validatorA]) =
     Panic (VErr (Errorf ''genesisValidators[%d] != req.Validators[%d] '' [VInt 0, VInt 0]))"
  by (simp add: InitChain_def chainerApp_def exampleChainer_def exampleApp_def
      exampleInitRequest_def exampleStore_def setState_def Let_def IsZero_def
      validatorA_def validatorB_def word_sless_alt)


section \<open>Properties of queries\<close>

lemma error_codes:
  "abciCode negativeHeightError = 18" "abciCode futureHeightError = 26"
  "abciCode proofHeightError = 18" "abciCode (notReadyError app) = 26"
  "abciCode ErrInvalidHeight = 26" "abciCode ErrInvalidRequest = 18"
  "abciCode ErrUnknownRequest = 6" "abciCode ErrPanic = 111222"
  by (simp_all add: negativeHeightError_def futureHeightError_def proofHeightError_def
      notReadyError_def ErrInvalidHeight_def ErrInvalidRequest_def ErrUnknownRequest_def
      ErrPanic_def)

lemma CreateQueryContext_negative:
  "height <s 0 \<Longrightarrow> CreateQueryContext app height prove = Return (Inl negativeHeightError)"
  by (simp add: CreateQueryContext_def checkNegativeHeight_def negativeHeightError_def)

lemma CreateQueryContext_not_ready:
  "\<not> height <s 0 \<Longrightarrow> LatestVersion (queryMultiStore app) = 0 \<Longrightarrow>
     CreateQueryContext app height prove = Return (Inl (notReadyError app))"
  by (simp add: CreateQueryContext_def checkNegativeHeight_def notReadyError_def
      queryMultiStore_def Let_def)

lemma CreateQueryContext_future:
  "\<not> height <s 0 \<Longrightarrow> LatestVersion (queryMultiStore app) \<noteq> 0 \<Longrightarrow>
   LatestVersion (queryMultiStore app) <s height \<Longrightarrow>
     CreateQueryContext app height prove = Return (Inl futureHeightError)"
  by (simp add: CreateQueryContext_def checkNegativeHeight_def futureHeightError_def
      queryMultiStore_def Let_def)

lemma CreateQueryContext_proof:
  "\<not> height <s 0 \<Longrightarrow> LatestVersion (queryMultiStore app) \<noteq> 0 \<Longrightarrow>
   \<not> LatestVersion (queryMultiStore app) <s height \<Longrightarrow> prove \<Longrightarrow>
   (if height = 0 then LatestVersion (queryMultiStore app) else height) \<le>s 1 \<Longrightarrow>
     CreateQueryContext app height prove = Return (Inl proofHeightError)"
  by (cases "height = 0")
    (simp_all add: CreateQueryContext_def checkNegativeHeight_def proofHeightError_def
      queryMultiStore_def Let_def)

lemma queryBody_grpc:
  assumes "q_Path req \<noteq> BroadcastTxPath" "grpcQueryRouter app (q_Path req) = Some handler"
  shows "queryBody app req =
    handleQueryGRPC app handler (req\<lparr>q_Height := requestedHeight app req\<rparr>)"
  using assms
  by (simp add: queryBody_def requestedHeight_def BroadcastTxPath_def Let_def)

lemma Query_Return: "queryBody app req = Return res \<Longrightarrow> Query app req = Return res"
  by (simp add: Query_def)

lemma Query_height_zero:
  "q_Height req = 0 \<Longrightarrow> Query app req = Query app (req\<lparr>q_Height := LastBlockHeight app\<rparr>)"
proof -
  assume z: "q_Height req = 0"
  have "(if q_Height (req\<lparr>q_Height := LastBlockHeight app\<rparr>) = 0
         then req\<lparr>q_Height := LastBlockHeight app\<rparr>\<lparr>q_Height := LastBlockHeight app\<rparr>
         else req\<lparr>q_Height := LastBlockHeight app\<rparr>) = req\<lparr>q_Height := LastBlockHeight app\<rparr>"
    by simp
  then have "queryBody app (req\<lparr>q_Height := LastBlockHeight app\<rparr>) = queryBody app req"
    unfolding queryBody_def using z by simp
  then show ?thesis by (simp add: Query_def)
qed

lemma Query_never_panics: "\<exists>res. Query app req = Return res"
  by (simp add: Query_def split: outcome.splits)

lemma Query_recovers:
  "queryBody app req = Panic r \<Longrightarrow>
     Query app req = Return (QueryResult (Wrapf ErrPanic ''%v'' [r]))
     \<and> rq_Code (QueryResult (Wrapf ErrPanic ''%v'' [r])) = abciCode ErrPanic"
  by (simp add: Query_def QueryResult_def)

lemma handleQueryGRPC_rejected:
  "CreateQueryContext app (q_Height req) (q_Prove req) = Return (Inl err) \<Longrightarrow>
     handleQueryGRPC app handler req = Return (QueryResult err)"
  by (simp add: handleQueryGRPC_def)


lemma QueryResult_code: "rq_Code (QueryResult err) = abciCode err"
  by (simp add: QueryResult_def)

text \<open>
  Claim C10, amended. Before any block has been committed (the latest version of the query
  store is 0), building a query context fails for every requested height: with the "not
  ready" error for every height that is not negative, 0 included, and with the error for a
  negative height otherwise. So no query that is routed to a gRPC handler succeeds before
  the first commit: it is answered with a structured error, whatever its height.
\<close>

theorem query_context_not_ready:
  assumes "LatestVersion (queryMultiStore app) = 0"
  shows "(\<not> height <s 0 \<longrightarrow>
            CreateQueryContext app height prove = Return (Inl (notReadyError app)))
    \<and> (height <s 0 \<longrightarrow>
            CreateQueryContext app height prove = Return (Inl negativeHeightError))
    \<and> (\<exists>err. CreateQueryContext app height prove = Return (Inl err) \<and> abciCode err \<noteq> 0)
    \<and> (\<exists>err. handleQueryGRPC app handler req = Return (QueryResult err)
               \<and> rq_Code (QueryResult err) \<noteq> 0)
    \<and> (q_Path req \<noteq> BroadcastTxPath \<and> grpcQueryRouter app (q_Path req) = Some handler
         \<longrightarrow> (\<exists>err. Query app req = Return (QueryResult err)
                      \<and> rq_Code (QueryResult err) \<noteq> 0))"
proof -
  have rej: "\<exists>err. CreateQueryContext app h p = Return (Inl err) \<and> abciCode err \<noteq> 0" for h p
  proof (cases "h <s 0")
    case True
    then show ?thesis by (auto simp add: CreateQueryContext_negative error_codes)
  next
    case False
    with assms show ?thesis by (auto simp add: CreateQueryContext_not_ready error_codes)
  qed
  have grpc: "\<exists>err. handleQueryGRPC app handler r = Return (QueryResult err)
               \<and> rq_Code (QueryResult err) \<noteq> 0" for r
  proof -
    from rej [of "q_Height r" "q_Prove r"] obtain err where
      "CreateQueryContext app (q_Height r) (q_Prove r) = Return (Inl err)" "abciCode err \<noteq> 0"
      by blast
    then show ?thesis by (auto simp add: handleQueryGRPC_rejected QueryResult_code)
  qed
  have "\<exists>err. Query app req = Return (QueryResult err) \<and> rq_Code (QueryResult err) \<noteq> 0"
    if route: "q_Path req \<noteq> BroadcastTxPath \<and> grpcQueryRouter app (q_Path req) = Some handler"
  proof -
    from route have "queryBody app req =
        handleQueryGRPC app handler (req\<lparr>q_Height := requestedHeight app req\<rparr>)"
      by (simp add: queryBody_grpc)
    with grpc [of "req\<lparr>q_Height := requestedHeight app req\<rparr>"] show ?thesis
      by (auto simp add: Query_def)
  qed
  with rej [of height prove] grpc [of req] assms show ?thesis
    by (simp add: CreateQueryContext_negative CreateQueryContext_not_ready)
qed

text \<open>
  Claim C10, as stated, fails for a negative height: the height is checked first, and the
  error is the one for a negative height, not "not ready".
\<close>

theorem query_context_not_ready_counterexample:
  "LatestVersion (queryMultiStore exampleApp) = 0
   \<and> CreateQueryContext exampleApp (- 1) False = Return (Inl negativeHeightError)
   \<and> negativeHeightError \<noteq> notReadyError exampleApp"
  by (simp add: queryMultiStore_def exampleApp_def exampleStore_def CreateQueryContext_negative
      word_sless_alt negativeHeightError_def notReadyError_def ErrInvalidRequest_def
      ErrInvalidHeight_def)

theorem query_context_not_ready_witness:
  "LatestVersion (queryMultiStore exampleApp) = 0
   \<and> CreateQueryContext exampleApp 0 False = Return (Inl (notReadyError exampleApp))
   \<and> CreateQueryContext exampleApp 7 True = Return (Inl (notReadyError exampleApp))
   \<and> abciCode (notReadyError exampleApp) = abciCode ErrInvalidHeight"
proof -
  have z: "LatestVersion (queryMultiStore exampleApp) = 0"
    by (simp add: queryMultiStore_def exampleApp_def exampleStore_def)
  have n: "\<not> (0 :: int64) <s 0" "\<not> (7 :: int64) <s 0" by (simp_all add: word_sless_alt)
  from query_context_not_ready [OF z, of 0 False] n
  have a: "CreateQueryContext exampleApp 0 False = Return (Inl (notReadyError exampleApp))"
    by blast
  from query_context_not_ready [OF z, of 7 True] n
  have b: "CreateQueryContext exampleApp 7 True = Return (Inl (notReadyError exampleApp))"
    by blast
  from z a b show ?thesis by (simp add: error_codes)
qed


lemma Query_grpc:
  assumes "q_Path req \<noteq> BroadcastTxPath" "grpcQueryRouter app (q_Path req) = Some handler"
    and "CreateQueryContext app (requestedHeight app req) (q_Prove req) = Return (Inl err)"
  shows "Query app req = Return (QueryResult err)"
proof -
  have "queryBody app req =
      handleQueryGRPC app handler (req\<lparr>q_Height := requestedHeight app req\<rparr>)"
    using assms(1,2) by (rule queryBody_grpc)
  moreover have "handleQueryGRPC app handler (req\<lparr>q_Height := requestedHeight app req\<rparr>)
      = Return (QueryResult err)"
    using assms(3) by (simp add: handleQueryGRPC_def)
  ultimately show ?thesis by (simp add: Query_def)
qed

lemma queryBody_split:
  assumes "q_Path req \<noteq> BroadcastTxPath" "grpcQueryRouter app (q_Path req) = None"
    and "SplitABCIQueryPath (q_Path req) = seg # rest"
  shows "queryBody app req =
    (let req' = req\<lparr>q_Height := requestedHeight app req\<rparr>; path = seg # rest
     in if seg = QueryPathApp then handleQueryApp app path req'
        else if seg = QueryPathStore then handleQueryStore app path req'
        else if seg = QueryPathP2P then handleQueryP2P app path
        else Return (QueryResult (Wrap ErrUnknownRequest ''unknown query path'')))"
  using assms
  by (simp add: queryBody_def requestedHeight_def BroadcastTxPath_def Let_def)

text \<open>
  Claim C7, amended. A requested height of 0 is replaced by the latest committed height,
  for every query. For a query that is routed to a registered gRPC handler: a negative
  height is rejected; a height greater than the latest version of the query store is
  rejected (as "not ready" when that version is 0); a request for a proof at a resolved
  height of at most 1 is rejected; each rejection is the structured response of an error
  with a non-zero code. A \<open>store\<close> query is checked by \<open>Query\<close> for the proof rule only,
  and an \<open>app\<close> query such as \<open>app/version\<close> is answered at whatever height it names.
\<close>

theorem query_height_rules:
  "(q_Height req = 0 \<longrightarrow> Query app req = Query app (req\<lparr>q_Height := LastBlockHeight app\<rparr>))
   \<and> (q_Path req \<noteq> BroadcastTxPath \<and> grpcQueryRouter app (q_Path req) = Some handler \<longrightarrow>
        (requestedHeight app req <s 0 \<longrightarrow>
           Query app req = Return (QueryResult negativeHeightError))
        \<and> (\<not> requestedHeight app req <s 0
            \<and> LatestVersion (queryMultiStore app) <s requestedHeight app req \<longrightarrow>
           Query app req = Return (QueryResult
             (if LatestVersion (queryMultiStore app) = 0 then notReadyError app
              else futureHeightError)))
        \<and> (q_Prove req \<and> resolvedHeight app req \<le>s 1 \<longrightarrow>
           (\<exists>err. Query app req = Return (QueryResult err)
              \<and> err \<in> {negativeHeightError, notReadyError app, futureHeightError,
                        proofHeightError})))
   \<and> (q_Path req \<noteq> BroadcastTxPath \<and> grpcQueryRouter app (q_Path req) = None
        \<and> SplitABCIQueryPath (q_Path req) = QueryPathStore # rest
        \<and> Queryable (cms app) \<noteq> None
        \<and> q_Prove req \<and> requestedHeight app req \<le>s 1 \<longrightarrow>
        Query app req = Return (QueryResult proofHeightError))
   \<and> (q_Path req \<noteq> BroadcastTxPath \<and> grpcQueryRouter app (q_Path req) = None
        \<and> SplitABCIQueryPath (q_Path req) = [QueryPathApp, ''version''] \<longrightarrow>
        Query app req = Return \<lparr>rq_Code = 0, rq_Codespace = RootCodespace,
          rq_Value = map of_char (version app), rq_Height = requestedHeight app req\<rparr>)
   \<and> abciCode negativeHeightError \<noteq> 0 \<and> abciCode (notReadyError app) \<noteq> 0
   \<and> abciCode futureHeightError \<noteq> 0 \<and> abciCode proofHeightError \<noteq> 0"
proof -
  have zero: "q_Height req = 0 \<longrightarrow>
      Query app req = Query app (req\<lparr>q_Height := LastBlockHeight app\<rparr>)"
    by (simp add: Query_height_zero)
  have grpc: "(requestedHeight app req <s 0 \<longrightarrow>
           Query app req = Return (QueryResult negativeHeightError))
        \<and> (\<not> requestedHeight app req <s 0
            \<and> LatestVersion (queryMultiStore app) <s requestedHeight app req \<longrightarrow>
           Query app req = Return (QueryResult
             (if LatestVersion (queryMultiStore app) = 0 then notReadyError app
              else futureHeightError)))
        \<and> (q_Prove req \<and> resolvedHeight app req \<le>s 1 \<longrightarrow>
           (\<exists>err. Query app req = Return (QueryResult err)
              \<and> err \<in> {negativeHeightError, notReadyError app, futureHeightError,
                        proofHeightError}))"
    if route: "q_Path req \<noteq> BroadcastTxPath \<and> grpcQueryRouter app (q_Path req) = Some handler"
  proof -
    note q = Query_grpc [of req app handler]
    have neg: "requestedHeight app req <s 0 \<Longrightarrow>
        Query app req = Return (QueryResult negativeHeightError)"
      using route by (simp add: q CreateQueryContext_negative)
    have nr: "\<not> requestedHeight app req <s 0 \<Longrightarrow> LatestVersion (queryMultiStore app) = 0 \<Longrightarrow>
        Query app req = Return (QueryResult (notReadyError app))"
      using route by (simp add: q CreateQueryContext_not_ready)
    have fut: "\<not> requestedHeight app req <s 0 \<Longrightarrow> LatestVersion (queryMultiStore app) \<noteq> 0 \<Longrightarrow>
        LatestVersion (queryMultiStore app) <s requestedHeight app req \<Longrightarrow>
        Query app req = Return (QueryResult futureHeightError)"
      using route by (simp add: q CreateQueryContext_future)
    have pro: "\<not> requestedHeight app req <s 0 \<Longrightarrow> LatestVersion (queryMultiStore app) \<noteq> 0 \<Longrightarrow>
        \<not> LatestVersion (queryMultiStore app) <s requestedHeight app req \<Longrightarrow>
        q_Prove req \<Longrightarrow> resolvedHeight app req \<le>s 1 \<Longrightarrow>
        Query app req = Return (QueryResult proofHeightError)"
      using route by (simp add: q CreateQueryContext_proof resolvedHeight_def)
    from neg nr fut pro show ?thesis by (cases "LatestVersion (queryMultiStore app) = 0") auto
  qed
  have store: "Query app req = Return (QueryResult proofHeightError)"
    if s: "q_Path req \<noteq> BroadcastTxPath \<and> grpcQueryRouter app (q_Path req) = None
        \<and> SplitABCIQueryPath (q_Path req) = QueryPathStore # rest
        \<and> Queryable (cms app) \<noteq> None
        \<and> q_Prove req \<and> requestedHeight app req \<le>s 1"
  proof -
    from s have "queryBody app req = handleQueryStore app (QueryPathStore # rest)
        (req\<lparr>q_Height := requestedHeight app req\<rparr>)"
      by (simp add: queryBody_split QueryPathStore_def QueryPathApp_def)
    moreover from s have "handleQueryStore app (QueryPathStore # rest)
        (req\<lparr>q_Height := requestedHeight app req\<rparr>) = Return (QueryResult proofHeightError)"
      by (auto simp add: handleQueryStore_def proofHeightError_def)
    ultimately show ?thesis by (simp add: Query_def)
  qed
  have appq: "Query app req = Return \<lparr>rq_Code = 0, rq_Codespace = RootCodespace,
          rq_Value = map of_char (version app), rq_Height = requestedHeight app req\<rparr>"
    if s: "q_Path req \<noteq> BroadcastTxPath \<and> grpcQueryRouter app (q_Path req) = None
        \<and> SplitABCIQueryPath (q_Path req) = [QueryPathApp, ''version'']"
  proof -
    from s have "queryBody app req = handleQueryApp app [QueryPathApp, ''version'']
        (req\<lparr>q_Height := requestedHeight app req\<rparr>)"
      by (simp add: queryBody_split)
    then show ?thesis by (simp add: Query_def handleQueryApp_def)
  qed
  from zero grpc store appq show ?thesis by (simp add: error_codes)
qed


lemma split_app_version: "SplitABCIQueryPath ''/app/version'' = [''app'', ''version'']"
  by (simp add: SplitABCIQueryPath_def)

lemma split_p2p_bogus:
  "SplitABCIQueryPath ''/p2p/filter/bogus/x'' = [''p2p'', ''filter'', ''bogus'', ''x'']"
  by (simp add: SplitABCIQueryPath_def)

text \<open>
  Claim C7, as stated, fails: the query \<open>/app/version\<close> with the negative height \<open>-1\<close> is
  answered with code 0.
\<close>

theorem query_height_rules_counterexample:
  "(- 1 :: int64) <s 0
   \<and> Query exampleApp (exampleQuery ''/app/version'' (- 1) False) =
       Return \<lparr>rq_Code = 0, rq_Codespace = ''sdk'', rq_Value = map of_char ''v1'',
               rq_Height = - 1\<rparr>"
  by (simp add: Query_def queryBody_def exampleQuery_def exampleApp_def split_app_version
      QueryPathApp_def handleQueryApp_def RootCodespace_def word_sless_alt Let_def)

theorem query_height_rules_witness:
  "q_Path (exampleQuery examplePath (- 1) False) \<noteq> BroadcastTxPath
   \<and> grpcQueryRouter (grpcApp 10) (q_Path (exampleQuery examplePath (- 1) False))
       = Some exampleHandler
   \<and> requestedHeight (grpcApp 10) (exampleQuery examplePath (- 1) False) <s 0
   \<and> Query (grpcApp 10) (exampleQuery examplePath (- 1) False)
       = Return (QueryResult negativeHeightError)
   \<and> \<not> requestedHeight (grpcApp 10) (exampleQuery examplePath 11 False) <s 0
   \<and> LatestVersion (queryMultiStore (grpcApp 10))
       <s requestedHeight (grpcApp 10) (exampleQuery examplePath 11 False)
   \<and> Query (grpcApp 10) (exampleQuery examplePath 11 False)
       = Return (QueryResult futureHeightError)
   \<and> q_Height (exampleQuery examplePath 0 False) = 0
   \<and> Query (grpcApp 10) (exampleQuery examplePath 0 False)
       = Query (grpcApp 10) (exampleQuery examplePath 10 False)"
proof -
  have p: "q_Path (exampleQuery examplePath h b) \<noteq> BroadcastTxPath
      \<and> grpcQueryRouter (grpcApp 10) (q_Path (exampleQuery examplePath h b))
          = Some exampleHandler" for h b
    by (simp add: exampleQuery_def examplePath_def BroadcastTxPath_def grpcApp_def)
  have r: "requestedHeight (grpcApp 10) (exampleQuery examplePath (- 1) False) = - 1"
    "requestedHeight (grpcApp 10) (exampleQuery examplePath 11 False) = 11"
    by (simp_all add: requestedHeight_def exampleQuery_def)
  have l: "LatestVersion (queryMultiStore (grpcApp 10)) = 10"
    by (simp add: queryMultiStore_def grpcApp_def exampleApp_def committedStore_def)
  have c: "(- 1 :: int64) <s 0" "\<not> (11 :: int64) <s 0" "(10 :: int64) <s 11"
    by (simp_all add: word_sless_alt)
  have z: "exampleQuery examplePath 0 False\<lparr>q_Height := LastBlockHeight (grpcApp 10)\<rparr>
      = exampleQuery examplePath 10 False"
    by (simp add: exampleQuery_def LastBlockHeight_def grpcApp_def committedStore_def)
  note t = query_height_rules [where app = "grpcApp 10" and handler = exampleHandler]
  from t [of "exampleQuery examplePath (- 1) False"] p r c
  have a: "Query (grpcApp 10) (exampleQuery examplePath (- 1) False)
       = Return (QueryResult negativeHeightError)" by simp
  from t [of "exampleQuery examplePath 11 False"] p r c l
  have b: "Query (grpcApp 10) (exampleQuery examplePath 11 False)
       = Return (QueryResult futureHeightError)" by simp
  from t [of "exampleQuery examplePath 0 False"] z
  have d: "Query (grpcApp 10) (exampleQuery examplePath 0 False)
       = Query (grpcApp 10) (exampleQuery examplePath 10 False)"
    by (simp add: exampleQuery_def)
  from p [of "- 1" False] r c l a b d show ?thesis by (simp add: exampleQuery_def)
qed

text \<open>
  Claim C8, at the request \<open>/p2p/filter/bogus/x\<close>: no route is registered for the path and
  the filter type \<open>bogus\<close> is none of \<open>addr\<close> and \<open>id\<close>, yet \<open>Query\<close> answers with the
  empty response, whose code is 0, where the claim asks for a structured error result.
\<close>

theorem query_unknown_peer_filter_type:
  "grpcQueryRouter exampleApp ''/p2p/filter/bogus/x'' = None
   \<and> Query exampleApp (exampleQuery ''/p2p/filter/bogus/x'' 0 False) = Return emptyResponseQuery
   \<and> rq_Code emptyResponseQuery = 0"
  by (simp add: Query_def queryBody_def exampleQuery_def exampleApp_def split_p2p_bogus
      QueryPathApp_def QueryPathStore_def QueryPathP2P_def handleQueryP2P_def
      emptyResponseQuery_def Let_def)

text \<open>
  The rest of claim C8 holds: \<open>Query\<close> always returns a response, a panic of its body
  is answered with the structured result of \<open>ErrPanic\<close>, and a path that is empty or whose
  first segment is none of \<open>app\<close>, \<open>store\<close> and \<open>p2p\<close> is answered with the structured
  result of \<open>ErrUnknownRequest\<close>.
\<close>

lemma Query_unknown_path:
  assumes "q_Path req \<noteq> BroadcastTxPath" "grpcQueryRouter app (q_Path req) = None"
    and "SplitABCIQueryPath (q_Path req) = []
      \<or> hd (SplitABCIQueryPath (q_Path req)) \<notin> {QueryPathApp, QueryPathStore, QueryPathP2P}"
  shows "\<exists>msg. Query app req = Return (QueryResult (Wrap ErrUnknownRequest msg))"
proof (cases "SplitABCIQueryPath (q_Path req)")
  case Nil
  with assms(1,2) show ?thesis
    by (cases "q_Height req = 0")
      (auto simp add: Query_def queryBody_def BroadcastTxPath_def Let_def)
next
  case (Cons seg rest)
  with assms have "queryBody app req =
      Return (QueryResult (Wrap ErrUnknownRequest ''unknown query path''))"
    by (simp add: queryBody_split Let_def)
  then show ?thesis by (auto simp add: Query_def)
qed

end
